theory Spec2Isabelle
  imports Main "HOL-Library.AList" "HOL-Library.Multiset"
begin

section \<open>Number guessing game server (server.js)\<close>

text \<open>
  A shallow embedding of the room and session logic of \<^verbatim>\<open>server.js\<close>.
  JavaScript strings are \<open>string\<close>; every string the server compares, counts or tests
  is either a socket identifier, a room code or a candidate number, and the only tests
  made on a candidate number (\<^verbatim>\<open>length\<close>, the regular expression \<^verbatim>\<open>/^\d{4}$/\<close>)
  succeed on four ASCII digits only, where characters and UTF-16 code units agree.
  A JavaScript object used as a dictionary and a \<^verbatim>\<open>Map\<close> are association lists in
  insertion order: assigning to a key that is present replaces the value in place,
  assigning to a new key appends (\<open>AList.update\<close>), \<^verbatim>\<open>delete\<close> drops the key
  (\<open>AList.delete\<close>). Socket identifiers and room codes are never canonical array
  indices, so \<^verbatim>\<open>Object.keys\<close> lists them in insertion order.
\<close>

subsection \<open>validateNumber (lines 39-46)\<close>

definition isDigit :: "char \<Rightarrow> bool" where
  "isDigit c = (c \<in> set ''0123456789'')"

text \<open>
  \<^verbatim>\<open>!num || num.length !== 4\<close>, then the regular expression, then the size of the
  set of its characters.
\<close>

definition validateNumber :: "string \<Rightarrow> bool" where
  "validateNumber num =
     (if num = [] \<or> length num \<noteq> 4 then False
      else if \<not> (length num = 4 \<and> list_all isDigit num) then False
      else length (remdups num) = 4)"

subsection \<open>checkGuess (lines 49-82)\<close>

record guessResult =
  correctPosition :: nat
  correctNumber :: nat

text \<open>\<^verbatim>\<open>digits[i]\<close>: reading past the end of the array gives \<^verbatim>\<open>undefined\<close>.\<close>

definition digitAt :: "string \<Rightarrow> nat \<Rightarrow> char option" where
  "digitAt ds i = (if i < length ds then Some (ds ! i) else None)"

text \<open>\<^verbatim>\<open>count[digit] = (count[digit] || 0) + 1\<close>\<close>

definition countDigit :: "(char \<times> nat) list \<Rightarrow> char \<Rightarrow> (char \<times> nat) list" where
  "countDigit cnt digit =
     AList.update digit
       ((case map_of cnt digit of None \<Rightarrow> 0 | Some c \<Rightarrow> (if c = 0 then 0 else c)) + 1) cnt"

definition countDigits :: "string \<Rightarrow> (char \<times> nat) list" where
  "countDigits ds = foldl countDigit [] ds"

text \<open>
  The body of the last \<^verbatim>\<open>forEach\<close>: a digit of the guess adds to \<open>correctNumber\<close>
  when \<^verbatim>\<open>secretCount[digit]\<close> is truthy.
\<close>

definition addMatches :: "(char \<times> nat) list \<Rightarrow> nat \<Rightarrow> char \<times> nat \<Rightarrow> nat" where
  "addMatches secretCount acc e =
     (case map_of secretCount (fst e) of
        None \<Rightarrow> acc
      | Some c \<Rightarrow> (if c = 0 then acc else acc + min (snd e) c))"

text \<open>
  The keys of \<open>guessCount\<close> are visited once each; the order of \<^verbatim>\<open>Object.keys\<close>
  (digit keys in ascending order) does not change the sum, so the entries are folded
  in the order of the list.
\<close>

definition checkGuess :: "string \<Rightarrow> string \<Rightarrow> guessResult" where
  "checkGuess guess secret =
     (let guessDigits = guess;
          secretDigits = secret;
          cp = length (filter (\<lambda>i. digitAt guessDigits i = digitAt secretDigits i) [0..<4]);
          secretCount = countDigits secretDigits;
          guessCount = countDigits guessDigits;
          cn = foldl (addMatches secretCount) 0 guessCount
      in \<lparr> correctPosition = cp, correctNumber = cn \<rparr>)"

subsection \<open>Data model (lines 24-26, 304-326, 539-546)\<close>

type_synonym socketId = string
type_synonym roomCode = string
type_synonym timerId = nat
type_synonym addr = nat

text \<open>A property that is absent (\<^verbatim>\<open>undefined\<close>), \<^verbatim>\<open>null\<close>, or set to a value.\<close>

datatype 'a nullable = Undefined | Null | Val 'a

record historyItem =
  player :: nat
  playerName :: string
  guess :: string
  result :: guessResult
  isWin :: bool
  timestamp :: int

record gameState =
  started :: bool
  currentPlayer :: nat
  secrets :: "(socketId \<times> string) list"
  history :: "historyItem list"
  winner :: "nat nullable"
  winningGuess :: "string nullable"
  startedAt :: "int option"

text \<open>
  A player object; \<open>id_sock\<close> is its \<^verbatim>\<open>id\<close>. \<open>tempDisconnected\<close> and
  \<open>reconnectedAt\<close> are absent (\<open>None\<close>) until a handler sets them. Dates are
  milliseconds as \<open>int\<close>.
\<close>

record player =
  id_sock :: socketId
  playerNumber :: nat
  nickname :: string
  ready :: bool
  connected :: bool
  tempDisconnected :: "bool option"
  lastSeen :: int
  reconnectedAt :: "int option"

record room =
  code :: roomCode
  players :: "(socketId \<times> player) list"
  gameState :: gameState
  createdAt :: int
  disconnectTimers :: "(nat \<times> timerId) list"

text \<open>What \<^verbatim>\<open>createCleanPlayersObject\<close> keeps of a player (lines 85-99).\<close>

record cleanPlayer =
  c_id :: socketId
  c_playerNumber :: nat
  c_nickname :: string
  c_ready :: bool
  c_connected :: bool
  c_tempDisconnected :: bool

definition cleanPlayerOf :: "player \<Rightarrow> cleanPlayer" where
  "cleanPlayerOf p =
     \<lparr> c_id = id_sock p, c_playerNumber = playerNumber p, c_nickname = nickname p,
       c_ready = ready p, c_connected = connected p,
       c_tempDisconnected = (case tempDisconnected p of None \<Rightarrow> False | Some b \<Rightarrow> b) \<rparr>"

definition createCleanPlayersObject ::
  "(socketId \<times> player) list \<Rightarrow> (socketId \<times> cleanPlayer) list" where
  "createCleanPlayersObject ps = map (\<lambda>kp. (fst kp, cleanPlayerOf (snd kp))) ps"

subsection \<open>Events, replies, timers and the server state\<close>

text \<open>
  The \<open>gameState\<close> of a \<^verbatim>\<open>roomUpdate\<close> is the whole object, but for the one sent by
  \<^verbatim>\<open>submitSecret\<close>, which carries \<open>started\<close> and \<open>currentPlayer\<close> only (lines 488-491).
  The \<open>winningGuess\<close> of a \<^verbatim>\<open>gameEnd\<close> is the guess, or the fixed notice of a win by
  the opponent's timeout (line 278).
\<close>

datatype gameStateView = WholeState gameState | StartedAndTurn bool nat

datatype winningText = GuessText string | TimeoutNotice

datatype event =
    PlayerDisconnected nat nat
  | GameEnd nat string winningText "string option" "historyItem list"
  | RoomUpdate roomCode "(socketId \<times> cleanPlayer) list" gameStateView
  | PlayerReconnected nat
  | StopReconnectCountdown nat
  | GameStart nat int
  | TurnChange nat historyItem "historyItem list"
  | GameReset "(socketId \<times> cleanPlayer) list" gameState
  | PlayerLeft nat

text \<open>
  \<^verbatim>\<open>socket.emit\<close>, \<^verbatim>\<open>io.to(roomCode).emit\<close> and \<^verbatim>\<open>socket.to(roomCode).emit\<close>
  (the room but the socket itself).
\<close>

datatype audience = ToSocket socketId | ToRoom roomCode | ToRoomExcept roomCode socketId

text \<open>
  The failure messages of the acknowledgments, by the line that sends them:
  \<open>RoomNotFound\<close> 136 and 437, \<open>PlayerInfoNotFound\<close> 141, \<open>NoSuchRoom\<close> 359,
  \<open>RoomFull\<close> 364, \<open>GameAlreadyStarted\<close> 368, \<open>PlayerNotFound\<close> 442 and 520,
  \<open>InvalidNumber\<close> 452 and 514, \<open>GameNotStarted\<close> 508, \<open>NotYourTurn\<close> 524,
  \<open>OpponentSecretNotFound\<close> 534.
\<close>

datatype failure =
    RoomNotFound | PlayerInfoNotFound | NoSuchRoom | RoomFull | GameAlreadyStarted
  | PlayerNotFound | InvalidNumber | GameNotStarted | NotYourTurn | OpponentSecretNotFound

datatype reply =
    Failure failure
  | RoomCreated roomCode nat
  | RoomJoined roomCode nat
  | Reconnected gameState "(socketId \<times> cleanPlayer) list" "string option"
  | SecretAlreadySent
  | SecretSent
  | GuessChecked guessResult bool

text \<open>
  The two closures given to \<^verbatim>\<open>setTimeout\<close>: the expiry of a seat (lines 201-203),
  which looks the room up by its code when it runs, and the start of the game (lines
  470-482), which holds the room object itself.
\<close>

datatype callback = PlayerTimeoutCb roomCode nat | GameStartCb addr roomCode

text \<open>
  The state of the server. Room objects live in \<open>store\<close>; \<open>gameRooms\<close> maps a code to
  the address of its room, so that a closure can hold a room that has left the map.
  \<open>timers\<close> are the timeouts that are set and have neither run nor been cleared;
  \<open>emitted\<close> is the log of everything sent, oldest first. \<^verbatim>\<open>socketToPlayer\<close> and
  \<^verbatim>\<open>socket.playerSession\<close> are written and never read, the one-second countdown
  (lines 212-244) only emits \<^verbatim>\<open>reconnectCountdown\<close>, and \<^verbatim>\<open>ping\<close> only refreshes
  \<open>lastSeen\<close>; they are left out, as are the HTTP routes.
\<close>

record world =
  store :: "addr \<rightharpoonup> room"
  nextAddr :: addr
  gameRooms :: "(roomCode \<times> addr) list"
  playerSockets :: "(socketId \<times> roomCode) list"
  timers :: "(timerId \<times> callback) list"
  nextTimer :: timerId
  emitted :: "(audience \<times> event) list"

definition initialWorld :: world where
  "initialWorld =
     \<lparr> store = Map.empty, nextAddr = 0, gameRooms = [], playerSockets = [],
       timers = [], nextTimer = 0, emitted = [] \<rparr>"

text \<open>\<^verbatim>\<open>gameRooms.get(roomCode)\<close>: the room and where it lives.\<close>

definition lookupRoom :: "world \<Rightarrow> roomCode \<Rightarrow> (addr \<times> room) option" where
  "lookupRoom w rc =
     (case map_of (gameRooms w) rc of
        None \<Rightarrow> None
      | Some a \<Rightarrow> (case store w a of None \<Rightarrow> None | Some r \<Rightarrow> Some (a, r)))"

text \<open>\<^verbatim>\<open>gameRooms.get(playerSockets.get(socket.id))\<close>\<close>

definition roomOfSocket :: "world \<Rightarrow> socketId \<Rightarrow> (roomCode \<times> addr \<times> room) option" where
  "roomOfSocket w sock =
     (case map_of (playerSockets w) sock of
        None \<Rightarrow> None
      | Some rc \<Rightarrow> (case lookupRoom w rc of None \<Rightarrow> None | Some ar \<Rightarrow> Some (rc, ar)))"

definition putRoom :: "addr \<Rightarrow> room \<Rightarrow> world \<Rightarrow> world" where
  "putRoom a r w = w\<lparr> store := (store w)(a \<mapsto> r) \<rparr>"

definition emit :: "audience \<Rightarrow> event \<Rightarrow> world \<Rightarrow> world" where
  "emit aud ev w = w\<lparr> emitted := emitted w @ [(aud, ev)] \<rparr>"

definition setTimeout :: "callback \<Rightarrow> world \<Rightarrow> timerId \<times> world" where
  "setTimeout cb w =
     (nextTimer w, w\<lparr> timers := timers w @ [(nextTimer w, cb)], nextTimer := Suc (nextTimer w) \<rparr>)"

definition clearTimeout :: "timerId \<Rightarrow> world \<Rightarrow> world" where
  "clearTimeout h w = w\<lparr> timers := AList.delete h (timers w) \<rparr>"

definition clearTimeouts :: "timerId list \<Rightarrow> world \<Rightarrow> world" where
  "clearTimeouts hs w = foldl (\<lambda>v h. clearTimeout h v) w hs"

subsection \<open>Reconnection and expiry (lines 118-290)\<close>

text \<open>\<^verbatim>\<open>findPlayerBySession\<close>: the first entry of the room with that player number.\<close>

definition findPlayerBySession :: "world \<Rightarrow> roomCode \<Rightarrow> nat \<Rightarrow> (socketId \<times> player) option" where
  "findPlayerBySession w rc pn =
     (case lookupRoom w rc of
        None \<Rightarrow> None
      | Some ar \<Rightarrow> find (\<lambda>kp. playerNumber (snd kp) = pn) (players (snd ar)))"

text \<open>
  \<^verbatim>\<open>handleReconnection\<close>. The player object is updated and stored under the new
  socket's identifier, the entry under the old one is deleted when the two differ, and
  the seat's timer, when the table has one, is cleared and dropped from the table.
  \<open>gameState\<close> is not touched: \<open>mySecret\<close> is read from \<open>secrets\<close> under the new
  socket's identifier.
\<close>

definition handleReconnection ::
  "socketId \<Rightarrow> roomCode \<Rightarrow> nat \<Rightarrow> int \<Rightarrow> world \<Rightarrow> reply \<times> world" where
  "handleReconnection sock rc pn now w =
     (case lookupRoom w rc of
        None \<Rightarrow> (Failure RoomNotFound, w)
      | Some ar \<Rightarrow>
          (case findPlayerBySession w rc pn of
             None \<Rightarrow> (Failure PlayerInfoNotFound, w)
           | Some playerInfo \<Rightarrow>
               (let a = fst ar; rm = snd ar;
                    oldSocketId = fst playerInfo;
                    p = (snd playerInfo)\<lparr> id_sock := sock, connected := True,
                          tempDisconnected := Some False, lastSeen := now,
                          reconnectedAt := Some now \<rparr>;
                    ps1 = AList.update sock p (players rm);
                    ps2 = (if oldSocketId \<noteq> sock then AList.delete oldSocketId ps1 else ps1);
                    w1 = w\<lparr> playerSockets := AList.update sock rc (playerSockets w) \<rparr>;
                    w2 = (case map_of (disconnectTimers rm) pn of
                            None \<Rightarrow> w1 | Some h \<Rightarrow> clearTimeout h w1);
                    rm' = rm\<lparr> players := ps2,
                            disconnectTimers := AList.delete pn (disconnectTimers rm) \<rparr>
                in (Reconnected (gameState rm') (createCleanPlayersObject ps2)
                      (map_of (secrets (gameState rm')) sock),
                    putRoom a rm' w2))))"

text \<open>
  \<^verbatim>\<open>handlePlayerDisconnect\<close>: the seat is marked, the others are told, and a timeout
  for the seat is set and written into the room's table under the player number, over
  what the table held there.
\<close>

definition handlePlayerDisconnect :: "socketId \<Rightarrow> roomCode \<Rightarrow> int \<Rightarrow> world \<Rightarrow> world" where
  "handlePlayerDisconnect sock rc now w =
     (case lookupRoom w rc of
        None \<Rightarrow> w
      | Some ar \<Rightarrow>
          (case map_of (players (snd ar)) sock of
             None \<Rightarrow> w
           | Some p0 \<Rightarrow>
               (let a = fst ar; rm = snd ar;
                    p = p0\<lparr> connected := False, tempDisconnected := Some True, lastSeen := now \<rparr>;
                    w1 = emit (ToRoomExcept rc sock) (PlayerDisconnected (playerNumber p) 30) w;
                    tw = setTimeout (PlayerTimeoutCb rc (playerNumber p)) w1;
                    rm' = rm\<lparr> players := AList.update sock p (players rm),
                            disconnectTimers :=
                              AList.update (playerNumber p) (fst tw) (disconnectTimers rm) \<rparr>
                in putRoom a rm' (snd tw))))"

text \<open>
  \<^verbatim>\<open>handlePlayerTimeout\<close>: every entry with the player number is deleted, with the
  secret and the socket mapping under the same key; then the room is dropped when it is
  empty, or the one player left is announced the winner; last, the seat leaves the
  timer table.
\<close>

definition deleteKeys :: "'k list \<Rightarrow> ('k \<times> 'v) list \<Rightarrow> ('k \<times> 'v) list" where
  "deleteKeys ks al = foldl (\<lambda>l k. AList.delete k l) al ks"

definition handlePlayerTimeout :: "roomCode \<Rightarrow> nat \<Rightarrow> world \<Rightarrow> world" where
  "handlePlayerTimeout rc pn w =
     (case lookupRoom w rc of
        None \<Rightarrow> w
      | Some ar \<Rightarrow>
          (let a = fst ar; rm = snd ar;
               playersToRemove =
                 map fst (filter (\<lambda>kp. playerNumber (snd kp) = pn) (players rm));
               ps = deleteKeys playersToRemove (players rm);
               gs = (gameState rm)\<lparr> secrets :=
                      deleteKeys playersToRemove (secrets (gameState rm)) \<rparr>;
               w1 = w\<lparr> playerSockets := deleteKeys playersToRemove (playerSockets w) \<rparr>;
               remainingPlayers = length ps;
               w2 = (if remainingPlayers = 0
                     then w1\<lparr> gameRooms := AList.delete rc (gameRooms w1) \<rparr>
                     else if remainingPlayers = 1
                     then (case ps of
                             [] \<Rightarrow> w1
                           | kp # _ \<Rightarrow>
                               emit (ToRoom rc)
                                 (GameEnd (playerNumber (snd kp)) (nickname (snd kp))
                                    TimeoutNotice (Some ''opponent_timeout'') (history gs)) w1)
                     else w1);
               rm' = rm\<lparr> players := ps, gameState := gs,
                       disconnectTimers := AList.delete pn (disconnectTimers rm) \<rparr>
           in putRoom a rm' w2))"

subsection \<open>The handlers of a connection (lines 297-701)\<close>

text \<open>
  \<^verbatim>\<open>createRoom\<close>. \<open>codes\<close> are the results of the successive calls of
  \<^verbatim>\<open>generateRoomCode\<close>; the loop takes the first that is not a key of \<open>gameRooms\<close>, and
  has not ended (\<open>None\<close>) when none of them is. The nickname literals of the source are
  the Thai for the strings below.
\<close>

definition newPlayer :: "socketId \<Rightarrow> nat \<Rightarrow> string \<Rightarrow> int \<Rightarrow> player" where
  "newPlayer sock pn nick now =
     \<lparr> id_sock = sock, playerNumber = pn, nickname = nick, ready = False, connected = True,
       tempDisconnected = None, lastSeen = now, reconnectedAt = None \<rparr>"

definition createRoom :: "socketId \<Rightarrow> roomCode list \<Rightarrow> int \<Rightarrow> world \<Rightarrow> (reply \<times> world) option" where
  "createRoom sock codes now w =
     (case find (\<lambda>c. map_of (gameRooms w) c = None) codes of
        None \<Rightarrow> None
      | Some rc \<Rightarrow>
          (let a = nextAddr w;
               rm = \<lparr> code = rc,
                      players = [(sock, newPlayer sock 1 ''Player 1'' now)],
                      gameState = \<lparr> started = False, currentPlayer = 1, secrets = [],
                                    history = [], winner = Undefined,
                                    winningGuess = Undefined, startedAt = None \<rparr>,
                      createdAt = now, disconnectTimers = [] \<rparr>;
               w1 = w\<lparr> store := (store w)(a \<mapsto> rm), nextAddr := Suc a,
                       gameRooms := AList.update rc a (gameRooms w),
                       playerSockets := AList.update sock rc (playerSockets w) \<rparr>
           in Some (RoomCreated rc 1,
                    emit (ToSocket sock)
                      (RoomUpdate rc (createCleanPlayersObject (players rm))
                         (WholeState (gameState rm))) w1)))"

definition joinRoom :: "socketId \<Rightarrow> roomCode \<Rightarrow> int \<Rightarrow> world \<Rightarrow> reply \<times> world" where
  "joinRoom sock rc now w =
     (case lookupRoom w rc of
        None \<Rightarrow> (Failure NoSuchRoom, w)
      | Some ar \<Rightarrow>
          (let a = fst ar; rm = snd ar; playerCount = length (players rm) in
           if playerCount \<ge> 2 then (Failure RoomFull, w)
           else if started (gameState rm) then (Failure GameAlreadyStarted, w)
           else
             (let rm' = rm\<lparr> players :=
                          AList.update sock (newPlayer sock 2 ''Player 2'' now) (players rm) \<rparr>;
                  w1 = putRoom a rm' (w\<lparr> playerSockets := AList.update sock rc (playerSockets w) \<rparr>)
              in (RoomJoined rc 2,
                  emit (ToRoom rc)
                    (RoomUpdate rc (createCleanPlayersObject (players rm'))
                       (WholeState (gameState rm'))) w1))))"

definition attemptReconnect ::
  "socketId \<Rightarrow> roomCode \<Rightarrow> nat \<Rightarrow> int \<Rightarrow> world \<Rightarrow> reply \<times> world" where
  "attemptReconnect sock rc pn now w =
     (let res = handleReconnection sock rc pn now w in
      case fst res of
        Reconnected gs ps mySecret \<Rightarrow>
          (fst res,
           emit (ToRoomExcept rc sock) (StopReconnectCountdown pn)
             (emit (ToRoomExcept rc sock) (PlayerReconnected pn) (snd res)))
      | _ \<Rightarrow> res)"

text \<open>
  \<^verbatim>\<open>submitSecret\<close>. A player who is ready is answered before the secret is looked
  at. When the secret is stored and the room then has two players, all ready, the start
  of the game is put on a timer; the \<^verbatim>\<open>roomUpdate\<close> that follows still shows the state
  before the start.
\<close>

definition submitSecret :: "socketId \<Rightarrow> string \<Rightarrow> world \<Rightarrow> reply \<times> world" where
  "submitSecret sock secret w =
     (case roomOfSocket w sock of
        None \<Rightarrow> (Failure RoomNotFound, w)
      | Some rar \<Rightarrow>
          (let rc = fst rar; a = fst (snd rar); rm = snd (snd rar) in
           case map_of (players rm) sock of
             None \<Rightarrow> (Failure PlayerNotFound, w)
           | Some p \<Rightarrow>
               if ready p then (SecretAlreadySent, w)
               else if \<not> validateNumber secret then (Failure InvalidNumber, w)
               else
                 (let gs = (gameState rm)\<lparr> secrets :=
                             AList.update sock secret (secrets (gameState rm)) \<rparr>;
                      ps = AList.update sock (p\<lparr> ready := True \<rparr>) (players rm);
                      w1 = putRoom a (rm\<lparr> players := ps, gameState := gs \<rparr>) w;
                      allPlayers = map snd ps;
                      allPlayersReady = list_all ready allPlayers;
                      playerCount = length allPlayers;
                      w2 = (if allPlayersReady \<and> playerCount = 2
                            then snd (setTimeout (GameStartCb a rc) w1) else w1)
                  in (SecretSent,
                      emit (ToRoom rc)
                        (RoomUpdate rc (createCleanPlayersObject ps)
                           (StartedAndTurn (started gs) (currentPlayer gs))) w2))))"

text \<open>
  The callback of that timer (lines 470-482). It writes to the \<open>gameState\<close> that the
  room object has when it runs, and tests nothing.
\<close>

definition gameStartCallback :: "addr \<Rightarrow> roomCode \<Rightarrow> int \<Rightarrow> world \<Rightarrow> world" where
  "gameStartCallback a rc now w =
     (case store w a of
        None \<Rightarrow> w
      | Some rm \<Rightarrow>
          (let gs = (gameState rm)\<lparr> started := True, currentPlayer := 1, history := [],
                      startedAt := Some now \<rparr>
           in emit (ToRoom rc) (GameStart (currentPlayer gs) now)
                (putRoom a (rm\<lparr> gameState := gs \<rparr>) w)))"

text \<open>
  \<^verbatim>\<open>makeGuess\<close>, its tests in the order of the source. The opponent is the first key
  of \<open>players\<close> that is not the caller's; with no such key the lookup in \<open>secrets\<close> is
  under the key \<^verbatim>\<open>undefined\<close>. A secret that is absent or the empty string is falsy.
\<close>

definition makeGuess :: "socketId \<Rightarrow> string \<Rightarrow> int \<Rightarrow> world \<Rightarrow> reply \<times> world" where
  "makeGuess sock g now w =
     (case roomOfSocket w sock of
        None \<Rightarrow> (Failure GameNotStarted, w)
      | Some rar \<Rightarrow>
          (let rc = fst rar; a = fst (snd rar); rm = snd (snd rar); gs = gameState rm in
           if \<not> started gs then (Failure GameNotStarted, w)
           else if \<not> validateNumber g then (Failure InvalidNumber, w)
           else
             (case map_of (players rm) sock of
                None \<Rightarrow> (Failure PlayerNotFound, w)
              | Some p \<Rightarrow>
                  if playerNumber p \<noteq> currentPlayer gs then (Failure NotYourTurn, w)
                  else
                    (let opponentSocketId = find (\<lambda>k. k \<noteq> sock) (map fst (players rm));
                         opponentSecret =
                           map_of (secrets gs)
                             (case opponentSocketId of None \<Rightarrow> ''undefined'' | Some k \<Rightarrow> k)
                     in case opponentSecret of
                          None \<Rightarrow> (Failure OpponentSecretNotFound, w)
                        | Some os \<Rightarrow>
                            if os = [] then (Failure OpponentSecretNotFound, w)
                            else
                              (let res = checkGuess g os;
                                   historyItem =
                                     \<lparr> player = playerNumber p, playerName = nickname p,
                                       guess = g, result = res,
                                       isWin = (correctPosition res = 4), timestamp = now \<rparr>;
                                   gs1 = gs\<lparr> history := history gs @ [historyItem] \<rparr>
                               in if correctPosition res = 4
                                  then
                                    (let gs2 = gs1\<lparr> winner := Val (playerNumber p),
                                                 winningGuess := Val g \<rparr>
                                     in (GuessChecked res (correctPosition res = 4),
                                         emit (ToRoom rc)
                                           (GameEnd (playerNumber p) (nickname p) (GuessText g)
                                              None (history gs2))
                                           (putRoom a (rm\<lparr> gameState := gs2 \<rparr>) w)))
                                  else
                                    (let gs2 = gs1\<lparr> currentPlayer :=
                                                 (if currentPlayer gs1 = 1 then 2 else 1) \<rparr>
                                     in (GuessChecked res (correctPosition res = 4),
                                         emit (ToRoom rc)
                                           (TurnChange (currentPlayer gs2) historyItem
                                              (history gs2))
                                           (putRoom a (rm\<lparr> gameState := gs2 \<rparr>) w))))))))"

definition unready :: "(socketId \<times> player) list \<Rightarrow> (socketId \<times> player) list" where
  "unready ps = map (\<lambda>kp. (fst kp, (snd kp)\<lparr> ready := False \<rparr>)) ps"

text \<open>\<^verbatim>\<open>resetGame\<close> (lines 587-619); it sends no acknowledgment.\<close>

definition resetGame :: "socketId \<Rightarrow> world \<Rightarrow> world" where
  "resetGame sock w =
     (case roomOfSocket w sock of
        None \<Rightarrow> w
      | Some rar \<Rightarrow>
          (let rc = fst rar; a = fst (snd rar); rm = snd (snd rar);
               gs = \<lparr> started = False, currentPlayer = 1, secrets = [], history = [],
                      winner = Null, winningGuess = Null, startedAt = None \<rparr>;
               ps = unready (players rm);
               w1 = clearTimeouts (map snd (disconnectTimers rm)) w;
               rm' = rm\<lparr> players := ps, gameState := gs, disconnectTimers := [] \<rparr>
           in emit (ToRoom rc) (GameReset (createCleanPlayersObject ps) gs)
                (putRoom a rm' w1)))"

text \<open>
  \<^verbatim>\<open>leaveRoom\<close> (lines 622-677). \<^verbatim>\<open>if (roomCode)\<close> is false for a socket with no
  room and for the empty string.
\<close>

definition leaveRoom :: "socketId \<Rightarrow> world \<Rightarrow> world" where
  "leaveRoom sock w =
     (case map_of (playerSockets w) sock of
        None \<Rightarrow> w
      | Some rc \<Rightarrow>
          if rc = [] then w
          else
            (let w4 =
               (case lookupRoom w rc of
                  None \<Rightarrow> w
                | Some ar \<Rightarrow>
                    (case map_of (players (snd ar)) sock of
                       None \<Rightarrow> w
                     | Some p \<Rightarrow>
                         (let a = fst ar; rm = snd ar;
                              ps1 = AList.delete sock (players rm);
                              gs1 = (gameState rm)\<lparr> secrets :=
                                      AList.delete sock (secrets (gameState rm)) \<rparr>;
                              w1 = (case map_of (disconnectTimers rm) (playerNumber p) of
                                      None \<Rightarrow> w | Some h \<Rightarrow> clearTimeout h w);
                              dt = AList.delete (playerNumber p) (disconnectTimers rm);
                              gs2 = (if \<not> started gs1
                                     then \<lparr> started = False, currentPlayer = 1, secrets = [],
                                            history = [], winner = Undefined,
                                            winningGuess = Undefined, startedAt = None \<rparr>
                                     else gs1);
                              ps2 = (if \<not> started gs1 then unready ps1 else ps1);
                              rm' = rm\<lparr> players := ps2, gameState := gs2,
                                      disconnectTimers := dt \<rparr>;
                              w2 = putRoom a rm' w1
                          in if length ps2 = 0
                             then (clearTimeouts (map snd dt) w2)
                                    \<lparr> gameRooms := AList.delete rc (gameRooms w2) \<rparr>
                             else emit (ToRoom rc)
                                    (RoomUpdate rc (createCleanPlayersObject ps2)
                                       (WholeState gs2))
                                    (emit (ToRoom rc) (PlayerLeft (playerNumber p)) w2))))
             in w4\<lparr> playerSockets := AList.delete sock (playerSockets w4) \<rparr>))"

text \<open>The \<^verbatim>\<open>disconnect\<close> event (lines 692-701); the mappings are kept.\<close>

definition disconnect :: "socketId \<Rightarrow> int \<Rightarrow> world \<Rightarrow> world" where
  "disconnect sock now w =
     (case map_of (playerSockets w) sock of
        None \<Rightarrow> w
      | Some rc \<Rightarrow> if rc = [] then w else handlePlayerDisconnect sock rc now w)"

subsection \<open>Timers and the sweep (lines 731-763)\<close>

text \<open>A timeout that is still set runs once, at a time of the scheduler's choosing.\<close>

definition runCallback :: "callback \<Rightarrow> int \<Rightarrow> world \<Rightarrow> world" where
  "runCallback cb now w =
     (case cb of
        PlayerTimeoutCb rc pn \<Rightarrow> handlePlayerTimeout rc pn w
      | GameStartCb a rc \<Rightarrow> gameStartCallback a rc now w)"

definition fireTimer :: "timerId \<Rightarrow> int \<Rightarrow> world \<Rightarrow> world" where
  "fireTimer h now w =
     (case map_of (timers w) h of
        None \<Rightarrow> w
      | Some cb \<Rightarrow> runCallback cb now (w\<lparr> timers := AList.delete h (timers w) \<rparr>))"

definition shouldDelete :: "int \<Rightarrow> room \<Rightarrow> bool" where
  "shouldDelete now rm =
     (let roomAge = now - createdAt rm;
          hasActivePlayers = list_ex connected (map snd (players rm));
          playerCount = length (players rm)
      in (roomAge > 4 * 60 * 60 * 1000 \<and> playerCount = 0) \<or>
         (\<not> hasActivePlayers \<and> playerCount = 0) \<or>
         (roomAge > 8 * 60 * 60 * 1000))"

definition sweepRoom :: "int \<Rightarrow> world \<Rightarrow> roomCode \<times> addr \<Rightarrow> world" where
  "sweepRoom now w e =
     (case store w (snd e) of
        None \<Rightarrow> w
      | Some rm \<Rightarrow>
          if shouldDelete now rm
          then (clearTimeouts (map snd (disconnectTimers rm)) w)
                 \<lparr> gameRooms := AList.delete (fst e) (gameRooms w) \<rparr>
          else w)"

text \<open>The loop over the entries that \<open>gameRooms\<close> has when the sweep starts.\<close>

definition sweep :: "int \<Rightarrow> world \<Rightarrow> world" where
  "sweep now w = foldl (sweepRoom now) w (gameRooms w)"

subsection \<open>Runs of the server\<close>

datatype action =
    CreateRoom socketId "roomCode list" int
  | JoinRoom socketId roomCode int
  | AttemptReconnect socketId roomCode nat int
  | SubmitSecret socketId string
  | MakeGuess socketId string int
  | ResetGame socketId
  | LeaveRoom socketId
  | Disconnect socketId int
  | TimerFires timerId int
  | Sweep int

fun step :: "world \<Rightarrow> action \<Rightarrow> world" where
  "step w (CreateRoom sock codes now) =
     (case createRoom sock codes now w of None \<Rightarrow> w | Some rw \<Rightarrow> snd rw)"
| "step w (JoinRoom sock rc now) = snd (joinRoom sock rc now w)"
| "step w (AttemptReconnect sock rc pn now) = snd (attemptReconnect sock rc pn now w)"
| "step w (SubmitSecret sock secret) = snd (submitSecret sock secret w)"
| "step w (MakeGuess sock g now) = snd (makeGuess sock g now w)"
| "step w (ResetGame sock) = resetGame sock w"
| "step w (LeaveRoom sock) = leaveRoom sock w"
| "step w (Disconnect sock now) = disconnect sock now w"
| "step w (TimerFires h now) = fireTimer h now w"
| "step w (Sweep now) = sweep now w"

definition run :: "action list \<Rightarrow> world" where
  "run acts = foldl step initialWorld acts"

section \<open>Notions used in the proofs\<close>

text \<open>The count an object of counts holds for a digit, \<open>0\<close> for a digit it has no entry for.\<close>

definition cntOf :: "(char \<times> nat) list \<Rightarrow> char \<Rightarrow> nat" where
  "cntOf cnt d = (case map_of cnt d of None \<Rightarrow> 0 | Some c \<Rightarrow> c)"






text \<open>The fields of a player that \<^verbatim>\<open>resetGame\<close> is not to change.\<close>

definition keptFields ::
  "player \<Rightarrow> socketId \<times> nat \<times> string \<times> bool \<times> bool option \<times> int \<times> int option" where
  "keptFields p =
     (id_sock p, playerNumber p, nickname p, connected p, tempDisconnected p, lastSeen p,
      reconnectedAt p)"

text \<open>Whether the sweep drops the room of an entry of \<open>gameRooms\<close>.\<close>

definition doomed :: "(addr \<rightharpoonup> room) \<Rightarrow> int \<Rightarrow> roomCode \<times> addr \<Rightarrow> bool" where
  "doomed st now e = (case st (snd e) of None \<Rightarrow> False | Some rm \<Rightarrow> shouldDelete now rm)"

subsection \<open>Runs and rooms used as examples\<close>

text \<open>
  Socket \<open>A\<close> creates room \<open>ROOM01\<close> and \<open>B\<close> joins; both send their secrets; the
  start timer (handle \<open>0\<close>) runs; \<open>B\<close> loses its connection (expiry timer, handle
  \<open>1\<close>); a new socket \<open>C\<close> reconnects seat 2.
\<close>

definition lobbyActs :: "action list" where
  "lobbyActs = [CreateRoom ''A'' [''ROOM01''] 0, JoinRoom ''B'' ''ROOM01'' 1]"

definition readyActs :: "action list" where
  "readyActs = lobbyActs @ [SubmitSecret ''A'' ''1234'', SubmitSecret ''B'' ''5678'']"

definition startedActs :: "action list" where
  "startedActs = readyActs @ [TimerFires 0 600]"

definition droppedActs :: "action list" where
  "droppedActs = startedActs @ [Disconnect ''B'' 1000]"

definition reboundActs :: "action list" where
  "reboundActs = droppedActs @ [AttemptReconnect ''C'' ''ROOM01'' 2 2000]"

text \<open>Both are ready, and \<open>B\<close> leaves before the start timer runs.\<close>

definition leftActs :: "action list" where
  "leftActs = readyActs @ [LeaveRoom ''B'']"

text \<open>
  \<open>A\<close> leaves the lobby and \<open>C\<close> joins: \<^verbatim>\<open>joinRoom\<close> gives \<open>C\<close> the player number 2
  that \<open>B\<close> has. \<open>B\<close> and \<open>C\<close> lose their connections (handles \<open>0\<close> and \<open>1\<close>, the
  second written over the first in the table), and a new socket \<open>D\<close> reconnects seat 2.
\<close>

definition twinActs :: "action list" where
  "twinActs = lobbyActs @ [LeaveRoom ''A'', JoinRoom ''C'' ''ROOM01'' 2,
      Disconnect ''B'' 1000, Disconnect ''C'' 1500, AttemptReconnect ''D'' ''ROOM01'' 2 2000]"

definition seatA :: player where
  "seatA = newPlayer ''A'' 1 ''Player 1'' 0"

definition seatB :: player where
  "seatB = newPlayer ''B'' 2 ''Player 2'' 1"

definition readyA :: player where
  "readyA = seatA\<lparr> ready := True \<rparr>"

definition readyB :: player where
  "readyB = seatB\<lparr> ready := True \<rparr>"

definition reboundC :: player where
  "reboundC = readyB\<lparr> id_sock := ''C'', connected := True, tempDisconnected := Some False,
                lastSeen := 2000, reconnectedAt := Some 2000 \<rparr>"

definition reboundD :: player where
  "reboundD = seatB\<lparr> id_sock := ''D'', connected := True, tempDisconnected := Some False,
                lastSeen := 2000, reconnectedAt := Some 2000 \<rparr>"

definition lobbyState :: gameState where
  "lobbyState = \<lparr> started = False, currentPlayer = 1, secrets = [], history = [],
                  winner = Undefined, winningGuess = Undefined, startedAt = None \<rparr>"

definition startedState :: gameState where
  "startedState = lobbyState\<lparr> started := True,
                    secrets := [(''A'', ''1234''), (''B'', ''5678'')], startedAt := Some 600 \<rparr>"

definition lobbyRoom :: room where
  "lobbyRoom = \<lparr> code = ''ROOM01'', players = [(''A'', seatA), (''B'', seatB)],
                 gameState = lobbyState, createdAt = 0, disconnectTimers = [] \<rparr>"

definition startedRoom :: room where
  "startedRoom = lobbyRoom\<lparr> players := [(''A'', readyA), (''B'', readyB)],
                   gameState := startedState \<rparr>"

definition droppedRoom :: room where
  "droppedRoom = startedRoom\<lparr>
     players := [(''A'', readyA),
                 (''B'', readyB\<lparr> connected := False, tempDisconnected := Some True,
                            lastSeen := 1000 \<rparr>)],
     disconnectTimers := [(2, 1)] \<rparr>"

definition reboundRoom :: room where
  "reboundRoom = startedRoom\<lparr> players := [(''A'', readyA), (''C'', reboundC)] \<rparr>"

definition aloneRoom :: room where
  "aloneRoom = lobbyRoom\<lparr> players := [(''A'', seatA)],
                 gameState := lobbyState\<lparr> started := True, startedAt := Some 600 \<rparr> \<rparr>"

definition twinRoom :: room where
  "twinRoom = lobbyRoom\<lparr>
     players := [(''C'', (newPlayer ''C'' 2 ''Player 2'' 2)\<lparr> connected := False,
                            tempDisconnected := Some True, lastSeen := 1500 \<rparr>),
                 (''D'', reboundD)] \<rparr>"

text \<open>A state with a room that has no player; no run of the handlers leaves one.\<close>

definition vacantRoom :: room where
  "vacantRoom = lobbyRoom\<lparr> code := ''EMPTY0'', players := [] \<rparr>"

definition vacantWorld :: world where
  "vacantWorld = initialWorld\<lparr> store := [0 \<mapsto> vacantRoom], nextAddr := 1,
                   gameRooms := [(''EMPTY0'', 0)] \<rparr>"


section \<open>The guess engine\<close>

lemma cntOf_countDigit: "cntOf (countDigit cnt x) d = cntOf cnt d + (if x = d then 1 else 0)"
  by (auto simp: cntOf_def countDigit_def update_conv' split: option.splits)

lemma cntOf_foldl: "cntOf (foldl countDigit cnt ds) d = cntOf cnt d + count_list ds d"
  by (induction ds arbitrary: cnt) (auto simp: cntOf_countDigit)

lemma keys_countDigit: "fst ` set (countDigit cnt x) = insert x (fst ` set cnt)"
  by (simp add: countDigit_def dom_update)

lemma keys_foldl: "fst ` set (foldl countDigit cnt ds) = fst ` set cnt \<union> set ds"
  by (induction ds arbitrary: cnt) (auto simp: keys_countDigit)

lemma distinct_foldl: "distinct (map fst cnt) \<Longrightarrow> distinct (map fst (foldl countDigit cnt ds))"
  by (induction ds arbitrary: cnt) (auto simp: countDigit_def distinct_update)

lemma addMatches_eq: "addMatches sc acc e = acc + min (snd e) (cntOf sc (fst e))"
  by (simp add: addMatches_def cntOf_def split: option.splits)

lemma foldl_addMatches: "foldl (addMatches sc) acc gc = acc + sum_list (map (\<lambda>e. min (snd e) (cntOf sc (fst e))) gc)"
  by (induction gc arbitrary: acc) (auto simp: addMatches_eq)

lemma sum_entries:
  assumes "distinct (map fst gc)"
  shows "sum_list (map (\<lambda>e. min (snd e) (f (fst e))) gc) = (\<Sum>d\<in>fst ` set gc. min (cntOf gc d) (f d))"
proof -
  have "map (\<lambda>e. min (snd e) (f (fst e))) gc = map (\<lambda>d. min (cntOf gc d) (f d)) (map fst gc)"
    using assms by (auto simp: cntOf_def)
  then show ?thesis using assms
    by (simp only: sum_list_distinct_conv_sum_set[OF assms] set_map)
qed

lemma correctNumber_sum:
  "correctNumber (checkGuess g s) = (\<Sum>d\<in>set g. min (count_list g d) (count_list s d))"
proof -
  have d: "distinct (map fst (countDigits g))" by (simp add: countDigits_def distinct_foldl)
  have k: "fst ` set (countDigits g) = set g" by (simp add: countDigits_def keys_foldl)
  have c: "\<And>xs d. cntOf (countDigits xs) d = count_list xs d"
  proof -
    fix xs d
    have "cntOf [] d = 0" by (simp add: cntOf_def)
    then show "cntOf (countDigits xs) d = count_list xs d"
      by (simp add: countDigits_def cntOf_foldl)
  qed
  show ?thesis
    by (simp add: checkGuess_def Let_def foldl_addMatches sum_entries[OF d] k c)
qed

lemma sum_min_size: "(\<Sum>d\<in>set g. min (count_list g d) (count_list s d)) = size (mset g \<inter># mset s)"
proof -
  have "size (mset g \<inter># mset s) = (\<Sum>d\<in>set_mset (mset g \<inter># mset s). min (count_list g d) (count_list s d))"
    by (simp add: size_multiset_overloaded_eq count_mset)
  also have "\<dots> = (\<Sum>d\<in>set g. min (count_list g d) (count_list s d))"
    by (rule sum.mono_neutral_left) (auto simp: count_list_0_iff)
  finally show ?thesis by simp
qed

lemma matches_le_inter:
  "length xs = length ys \<Longrightarrow> length (filter (\<lambda>p. fst p = snd p) (zip xs ys)) \<le> size (mset xs \<inter># mset ys)"
proof (induction xs ys rule: list_induct2)
  case Nil then show ?case by simp
next
  case (Cons x xs y ys)
  show ?case
  proof (cases "x = y")
    case True
    then show ?thesis using Cons by simp
  next
    case False
    have "mset xs \<inter># mset ys \<subseteq># mset (x # xs) \<inter># mset (y # ys)"
      by (simp add: subset_mset.le_infI1 subset_mset.le_infI2)
    then have "size (mset xs \<inter># mset ys) \<le> size (mset (x # xs) \<inter># mset (y # ys))"
      by (rule size_mset_mono)
    then show ?thesis using Cons False by simp
  qed
qed

lemma correctPosition_zip:
  assumes "length g = 4" "length s = 4"
  shows "correctPosition (checkGuess g s) = length (filter (\<lambda>p. fst p = snd p) (zip g s))"
proof -
  obtain a b c d where g: "g = [a,b,c,d]" using assms(1)
    by (auto simp: length_Suc_conv numeral_eq_Suc)
  obtain a' b' c' d' where s: "s = [a',b',c',d']" using assms(2)
    by (auto simp: length_Suc_conv numeral_eq_Suc)
  have u: "[0..<4] = [0,1,2,3]" by (simp add: upt_rec)
  show ?thesis by (simp add: checkGuess_def Let_def digitAt_def g s u)
qed

lemma correctPosition_card:
  assumes "length g = 4" "length s = 4"
  shows "correctPosition (checkGuess g s) = card {i. i < 4 \<and> g ! i = s ! i}"
proof -
  have "correctPosition (checkGuess g s) = length (filter (\<lambda>i. g ! i = s ! i) [0..<4])"
    using assms by (auto simp: checkGuess_def Let_def digitAt_def intro!: arg_cong[where f=length] filter_cong)
  also have "\<dots> = card (set (filter (\<lambda>i. g ! i = s ! i) [0..<4]))"
    by (rule distinct_card[symmetric]) simp
  also have "\<dots> = card {i. i < 4 \<and> g ! i = s ! i}"
    by (rule arg_cong[where f=card]) auto
  finally show ?thesis .
qed

lemma checkGuess_eval_1256:
  "checkGuess ''1256'' ''1234'' = \<lparr>correctPosition = 2, correctNumber = 2\<rparr>"
  by (simp add: checkGuess_def Let_def digitAt_def countDigits_def countDigit_def addMatches_def upt_rec)

text \<open>
  C7: for a guess and a secret of four digits each, \<open>checkGuess\<close> returns as
  \<open>correctPosition\<close> the number of indices at which the two agree, and as
  \<open>correctNumber\<close> the sum over the ten digits of the smaller of the digit's numbers of
  occurrences in the guess and in the secret; so \<open>correctNumber\<close> is at least
  \<open>correctPosition\<close>, and \<open>checkGuess "1234" "4321"\<close> is \<open>{0, 4}\<close>. \<open>checkGuess\<close> is a
  function of its two arguments alone: it reads and writes no state.
\<close>

theorem checkGuess_counts:
  assumes "length g = 4" and "list_all isDigit g"
    and "length s = 4" and "list_all isDigit s"
  shows "correctPosition (checkGuess g s) = card {i. i < 4 \<and> g ! i = s ! i}
       \<and> correctNumber (checkGuess g s)
           = (\<Sum>d\<in>set ''0123456789''. min (count_list g d) (count_list s d))
       \<and> correctPosition (checkGuess g s) \<le> correctNumber (checkGuess g s)
       \<and> checkGuess ''1234'' ''4321'' = \<lparr>correctPosition = 0, correctNumber = 4\<rparr>"
proof -
  have pos: "correctPosition (checkGuess g s) = card {i. i < 4 \<and> g ! i = s ! i}"
    using assms(1,3) by (rule correctPosition_card)
  have sub: "set g \<subseteq> set ''0123456789''"
    using assms(2) unfolding list_all_iff isDigit_def by blast
  have "(\<Sum>d\<in>set g. min (count_list g d) (count_list s d))
        = (\<Sum>d\<in>set ''0123456789''. min (count_list g d) (count_list s d))"
    by (rule sum.mono_neutral_left) (use sub in \<open>auto simp: count_list_0_iff\<close>)
  then have num: "correctNumber (checkGuess g s)
           = (\<Sum>d\<in>set ''0123456789''. min (count_list g d) (count_list s d))"
    by (simp add: correctNumber_sum)
  have "correctPosition (checkGuess g s)
          = length (filter (\<lambda>p. fst p = snd p) (zip g s))"
    using assms(1,3) by (rule correctPosition_zip)
  also have "\<dots> \<le> size (mset g \<inter># mset s)"
    by (rule matches_le_inter) (simp add: assms)
  also have "\<dots> = correctNumber (checkGuess g s)"
    by (simp add: correctNumber_sum sum_min_size)
  finally have le: "correctPosition (checkGuess g s) \<le> correctNumber (checkGuess g s)" .
  have ex: "checkGuess ''1234'' ''4321'' = \<lparr>correctPosition = 0, correctNumber = 4\<rparr>"
    by (simp add: checkGuess_def Let_def digitAt_def countDigits_def countDigit_def addMatches_def upt_rec)
  from pos num le ex show ?thesis by blast
qed

theorem checkGuess_counts_witness:
  "length ''1256'' = 4 \<and> list_all isDigit ''1256'' \<and> length ''1234'' = 4 \<and> list_all isDigit ''1234''
   \<and> card {i. i < 4 \<and> ''1256'' ! i = ''1234'' ! i} = 2
   \<and> (\<Sum>d\<in>set ''0123456789''. min (count_list ''1256'' d) (count_list ''1234'' d)) = (2::nat)
   \<and> correctPosition (checkGuess ''1256'' ''1234'') \<le> correctNumber (checkGuess ''1256'' ''1234'')"
proof -
  have h1: "length ''1256'' = 4" and h3: "length ''1234'' = 4" by simp_all
  have h2: "list_all isDigit ''1256''" and h4: "list_all isDigit ''1234''"
    by (simp_all add: isDigit_def)
  note t = checkGuess_counts [OF h1 h2 h3 h4]
  show ?thesis using t h1 h2 h3 h4 by (simp add: checkGuess_eval_1256)
qed

section \<open>Rooms, association lists and timers\<close>

lemma roomOfSocket_SomeD:
  assumes "roomOfSocket w sock = Some (rc, a, rm)"
  shows "map_of (playerSockets w) sock = Some rc" and "map_of (gameRooms w) rc = Some a"
    and "store w a = Some rm"
  using assms by (auto simp: roomOfSocket_def lookupRoom_def split: option.splits)

lemma roomOfSocket_after_put:
  assumes "map_of (playerSockets w) sock = Some rc" and "map_of (gameRooms w) rc = Some a"
  shows "roomOfSocket (emit aud ev (putRoom a rm' w)) sock = Some (rc, a, rm')"
  using assms by (simp add: roomOfSocket_def lookupRoom_def emit_def putRoom_def)

lemma emitted_emit_put: "emitted (emit aud ev (putRoom a rm' w)) = emitted w @ [(aud, ev)]"
  by (simp add: emit_def putRoom_def)

lemma correctPosition_le_4: "correctPosition (checkGuess g s) \<le> 4"
proof -
  have "length (filter (\<lambda>i. digitAt g i = digitAt s i) [0..<4]) \<le> length [0..<4]"
    by (rule length_filter_le)
  then show ?thesis by (simp add: checkGuess_def Let_def)
qed

lemma lookupRoom_timers_upd [simp]: "lookupRoom (w\<lparr> timers := t \<rparr>) rc = lookupRoom w rc"
  by (simp add: lookupRoom_def split: option.splits)

lemma lookupRoom_SomeD:
  assumes "lookupRoom w rc = Some (a, rm)"
  shows "map_of (gameRooms w) rc = Some a" and "store w a = Some rm"
  using assms by (auto simp: lookupRoom_def split: option.splits)

lemma deleteKeys_filter: "deleteKeys ks al = filter (\<lambda>kp. fst kp \<notin> set ks) al"
proof (induction ks arbitrary: al)
  case Nil
  then show ?case by (simp add: deleteKeys_def)
next
  case (Cons k ks)
  have "deleteKeys (k # ks) al = deleteKeys ks (AList.delete k al)"
    by (simp add: deleteKeys_def)
  also have "\<dots> = filter (\<lambda>kp. fst kp \<notin> set ks) (AList.delete k al)"
    by (rule Cons.IH)
  also have "\<dots> = filter (\<lambda>kp. fst kp \<notin> set (k # ks)) al"
    by (auto simp: AList.delete_eq intro: filter_cong)
  finally show ?case .
qed

lemma deleteKeys_matching:
  assumes "distinct (map fst al)"
  shows "deleteKeys (map fst (filter P al)) al = filter (\<lambda>kp. \<not> P kp) al"
proof -
  have inj: "inj_on fst (set al)" using assms by (simp add: distinct_map)
  have key: "(fst kp \<notin> set (map fst (filter P al))) = (\<not> P kp)" if m: "kp \<in> set al" for kp
  proof -
    have "P kp" if "fst kp \<in> set (map fst (filter P al))"
    proof -
      from that obtain x where "x \<in> set al" "P x" "fst x = fst kp" by auto
      with inj m have "x = kp" by (auto dest: inj_onD)
      with \<open>P x\<close> show "P kp" by simp
    qed
    moreover have "fst kp \<in> set (map fst (filter P al))" if "P kp"
      using that m by force
    ultimately show ?thesis by blast
  qed
  have "filter (\<lambda>kp. fst kp \<notin> set (map fst (filter P al))) al = filter (\<lambda>kp. \<not> P kp) al"
  proof (rule filter_cong)
    show "al = al" by (rule refl)
  next
    fix x assume "x \<in> set al"
    then show "(fst x \<notin> set (map fst (filter P al))) = (\<not> P x)" by (rule key)
  qed
  then show ?thesis by (simp only: deleteKeys_filter)
qed

lemma deleteKeys_none_left:
  "list_all (\<lambda>kp. \<not> P kp) (deleteKeys (map fst (filter P al)) al)"
  by (force simp: deleteKeys_filter list_all_iff)



lemma clearTimeouts_timers:
  "map_of (timers (clearTimeouts hs w)) h = (if h \<in> set hs then None else map_of (timers w) h)"
proof (induction hs arbitrary: w)
  case Nil
  then show ?case by (simp add: clearTimeouts_def)
next
  case (Cons x xs)
  have "clearTimeouts (x # xs) w = clearTimeouts xs (clearTimeout x w)"
    by (simp add: clearTimeouts_def)
  then show ?case
    using Cons.IH[of "clearTimeout x w"] by (simp add: clearTimeout_def delete_conv)
qed

lemma clearTimeouts_frame:
  "store (clearTimeouts hs w) = store w \<and> gameRooms (clearTimeouts hs w) = gameRooms w
   \<and> playerSockets (clearTimeouts hs w) = playerSockets w
   \<and> emitted (clearTimeouts hs w) = emitted w"
proof (induction hs arbitrary: w)
  case Nil
  then show ?case by (simp add: clearTimeouts_def)
next
  case (Cons x xs)
  have "clearTimeouts (x # xs) w = clearTimeouts xs (clearTimeout x w)"
    by (simp add: clearTimeouts_def)
  then show ?case using Cons.IH[of "clearTimeout x w"] by (simp add: clearTimeout_def)
qed

text \<open>The example runs reach the example rooms.\<close>

lemma run_lobby: "lookupRoom (run lobbyActs) ''ROOM01'' = Some (0, lobbyRoom)"
  by code_simp

lemma run_started: "lookupRoom (run startedActs) ''ROOM01'' = Some (0, startedRoom)"
  by code_simp

lemma run_dropped: "lookupRoom (run droppedActs) ''ROOM01'' = Some (0, droppedRoom)"
  by code_simp

lemma run_rebound: "lookupRoom (run reboundActs) ''ROOM01'' = Some (0, reboundRoom)"
  by code_simp

lemma run_twin: "lookupRoom (run twinActs) ''ROOM01'' = Some (0, twinRoom)"
  by code_simp

lemma socket_lobby: "roomOfSocket (run lobbyActs) ''A'' = Some (''ROOM01'', 0, lobbyRoom)"
  by code_simp

lemma socket_started_A: "roomOfSocket (run startedActs) ''A'' = Some (''ROOM01'', 0, startedRoom)"
  by code_simp


lemma socket_dropped: "roomOfSocket (run droppedActs) ''A'' = Some (''ROOM01'', 0, droppedRoom)"
  by code_simp


section \<open>submitSecret\<close>

text \<open>
  C9: when the caller's seat is ready, \<open>submitSecret\<close> answers with success and the state
  of the server is the one before the call, whatever the secret sent; the test of the
  four distinct digits is made only for a caller who is not ready, who is refused on a
  malformed secret and accepted otherwise.
\<close>

theorem submitSecret_when_ready:
  assumes "roomOfSocket w sock = Some (rc, a, rm)" and "map_of (players rm) sock = Some p"
  shows "(ready p \<longrightarrow> submitSecret sock s w = (SecretAlreadySent, w))
       \<and> (\<not> ready p \<and> \<not> validateNumber s \<longrightarrow> submitSecret sock s w = (Failure InvalidNumber, w))
       \<and> (\<not> ready p \<and> validateNumber s \<longrightarrow> fst (submitSecret sock s w) = SecretSent)"
  using assms by (simp add: submitSecret_def Let_def)

theorem submitSecret_when_ready_witness:
  "\<not> validateNumber ''12''
   \<and> submitSecret ''A'' ''12'' (run startedActs) = (SecretAlreadySent, run startedActs)
   \<and> submitSecret ''A'' ''12'' (run lobbyActs) = (Failure InvalidNumber, run lobbyActs)
   \<and> fst (submitSecret ''A'' ''1234'' (run lobbyActs)) = SecretSent"
proof -
  have p1: "map_of (players startedRoom) ''A'' = Some readyA"
    by (simp add: startedRoom_def)
  have p2: "map_of (players lobbyRoom) ''A'' = Some seatA"
    by (simp add: lobbyRoom_def)
  have r: "ready readyA" "\<not> ready seatA"
    by (simp_all add: readyA_def seatA_def newPlayer_def)
  have v: "\<not> validateNumber ''12''" "validateNumber ''1234''"
    by (simp_all add: validateNumber_def isDigit_def)
  show ?thesis
    using submitSecret_when_ready[OF socket_started_A p1, of "''12''"]
      submitSecret_when_ready[OF socket_lobby p2, of "''12''"]
      submitSecret_when_ready[OF socket_lobby p2, of "''1234''"] r v
    by simp
qed

section \<open>makeGuess\<close>

lemma makeGuess_no_room:
  "roomOfSocket w sock = None \<Longrightarrow> makeGuess sock g now w = (Failure GameNotStarted, w)"
  by (simp add: makeGuess_def)





lemma accepted_guess_shape:
  assumes "roomOfSocket w sock = Some (rc, a, rm)"
    and "makeGuess sock g now w = (GuessChecked res win, w')"
  shows "\<exists>p os. started (gameState rm) \<and> map_of (players rm) sock = Some p
    \<and> playerNumber p = currentPlayer (gameState rm) \<and> res = checkGuess g os
    \<and> win = (correctPosition res = 4)
    \<and> (correctPosition res = 4 \<longrightarrow>
           w' = emit (ToRoom rc)
                  (GameEnd (playerNumber p) (nickname p) (GuessText g) None
                     (history (gameState rm) @
                        [\<lparr> player = playerNumber p, playerName = nickname p, guess = g,
                            result = res, isWin = True, timestamp = now \<rparr>]))
                  (putRoom a
                     (rm\<lparr> gameState := (gameState rm)\<lparr>
                        history := history (gameState rm) @
                          [\<lparr> player = playerNumber p, playerName = nickname p, guess = g,
                              result = res, isWin = True, timestamp = now \<rparr>],
                        winner := Val (playerNumber p), winningGuess := Val g \<rparr> \<rparr>) w))
    \<and> (correctPosition res \<noteq> 4 \<longrightarrow>
           w' = emit (ToRoom rc)
                  (TurnChange (if currentPlayer (gameState rm) = 1 then 2 else 1)
                     \<lparr> player = playerNumber p, playerName = nickname p, guess = g,
                            result = res, isWin = False, timestamp = now \<rparr>
                     (history (gameState rm) @
                        [\<lparr> player = playerNumber p, playerName = nickname p, guess = g,
                            result = res, isWin = False, timestamp = now \<rparr>]))
                  (putRoom a
                     (rm\<lparr> gameState := (gameState rm)\<lparr>
                        history := history (gameState rm) @
                          [\<lparr> player = playerNumber p, playerName = nickname p, guess = g,
                              result = res, isWin = False, timestamp = now \<rparr>],
                        currentPlayer := (if currentPlayer (gameState rm) = 1 then 2 else 1) \<rparr> \<rparr>) w))"
  using assms
  by (auto simp: makeGuess_def Let_def split: option.splits if_splits)

text \<open>
  C8: a guess that is accepted comes from the seat whose turn it is in a started game,
  and is added to the history. When its \<open>correctPosition\<close> is below 4, \<open>currentPlayer\<close>
  passes from 1 to 2 or from 2 to 1, the winner is untouched and a \<^verbatim>\<open>turnChange\<close> with
  the new \<open>currentPlayer\<close> is sent to the room; when it is 4, \<open>currentPlayer\<close> stays,
  \<open>winner\<close> and \<open>winningGuess\<close> become the guesser's seat and guess, and a
  \<^verbatim>\<open>gameEnd\<close> is sent to the room. No other value of \<open>correctPosition\<close> exists.
\<close>

theorem makeGuess_accepted:
  assumes "roomOfSocket w sock = Some (rc, a, rm)"
    and "makeGuess sock g now w = (GuessChecked res win, w')"
  shows "\<exists>p item rm'.
           started (gameState rm) \<and> map_of (players rm) sock = Some p
         \<and> playerNumber p = currentPlayer (gameState rm)
         \<and> win = (correctPosition res = 4)
         \<and> roomOfSocket w' sock = Some (rc, a, rm')
         \<and> players rm' = players rm
         \<and> history (gameState rm') = history (gameState rm) @ [item]
         \<and> player item = playerNumber p \<and> guess item = g \<and> result item = res
         \<and> (if correctPosition res = 4
             then currentPlayer (gameState rm') = currentPlayer (gameState rm)
                \<and> winner (gameState rm') = Val (playerNumber p)
                \<and> winningGuess (gameState rm') = Val g
                \<and> emitted w' = emitted w @
                     [(ToRoom rc, GameEnd (playerNumber p) (nickname p) (GuessText g) None
                                    (history (gameState rm')))]
             else correctPosition res < 4
                \<and> currentPlayer (gameState rm') = (if currentPlayer (gameState rm) = 1 then 2 else 1)
                \<and> winner (gameState rm') = winner (gameState rm)
                \<and> winningGuess (gameState rm') = winningGuess (gameState rm)
                \<and> emitted w' = emitted w @
                     [(ToRoom rc, TurnChange (currentPlayer (gameState rm')) item
                                    (history (gameState rm')))])"
proof -
  note d = roomOfSocket_SomeD[OF assms(1)]
  obtain p os where st: "started (gameState rm)"
    and pl: "map_of (players rm) sock = Some p"
    and turn: "playerNumber p = currentPlayer (gameState rm)"
    and res: "res = checkGuess g os"
    and win: "win = (correctPosition res = 4)"
    and won: "correctPosition res = 4 \<Longrightarrow>
           w' = emit (ToRoom rc)
                  (GameEnd (playerNumber p) (nickname p) (GuessText g) None
                     (history (gameState rm) @
                        [\<lparr> player = playerNumber p, playerName = nickname p, guess = g,
                            result = res, isWin = True, timestamp = now \<rparr>]))
                  (putRoom a
                     (rm\<lparr> gameState := (gameState rm)\<lparr>
                        history := history (gameState rm) @
                          [\<lparr> player = playerNumber p, playerName = nickname p, guess = g,
                              result = res, isWin = True, timestamp = now \<rparr>],
                        winner := Val (playerNumber p), winningGuess := Val g \<rparr> \<rparr>) w)"
    and miss: "correctPosition res \<noteq> 4 \<Longrightarrow>
           w' = emit (ToRoom rc)
                  (TurnChange (if currentPlayer (gameState rm) = 1 then 2 else 1)
                     \<lparr> player = playerNumber p, playerName = nickname p, guess = g,
                            result = res, isWin = False, timestamp = now \<rparr>
                     (history (gameState rm) @
                        [\<lparr> player = playerNumber p, playerName = nickname p, guess = g,
                            result = res, isWin = False, timestamp = now \<rparr>]))
                  (putRoom a
                     (rm\<lparr> gameState := (gameState rm)\<lparr>
                        history := history (gameState rm) @
                          [\<lparr> player = playerNumber p, playerName = nickname p, guess = g,
                              result = res, isWin = False, timestamp = now \<rparr>],
                        currentPlayer := (if currentPlayer (gameState rm) = 1 then 2 else 1) \<rparr> \<rparr>) w)"
    using accepted_guess_shape[OF assms] by blast
  show ?thesis
  proof (cases "correctPosition res = 4")
    case True
    let ?item = "\<lparr> player = playerNumber p, playerName = nickname p, guess = g,
                   result = res, isWin = True, timestamp = now \<rparr>"
    let ?rm = "rm\<lparr> gameState := (gameState rm)\<lparr>
                  history := history (gameState rm) @ [?item],
                  winner := Val (playerNumber p), winningGuess := Val g \<rparr> \<rparr>"
    have w': "w' = emit (ToRoom rc)
                (GameEnd (playerNumber p) (nickname p) (GuessText g) None
                   (history (gameState rm) @ [?item])) (putRoom a ?rm w)"
      using won[OF True] .
    have r: "roomOfSocket w' sock = Some (rc, a, ?rm)"
      unfolding w' using d(1,2) by (rule roomOfSocket_after_put)
    have e: "emitted w' = emitted w @
               [(ToRoom rc, GameEnd (playerNumber p) (nickname p) (GuessText g) None
                              (history (gameState ?rm)))]"
      unfolding w' by (simp add: emitted_emit_put)
    show ?thesis
      apply (rule exI[of _ p], rule exI[of _ ?item], rule exI[of _ ?rm])
      using st pl turn win r e True by simp
  next
    case False
    let ?item = "\<lparr> player = playerNumber p, playerName = nickname p, guess = g,
                   result = res, isWin = False, timestamp = now \<rparr>"
    let ?rm = "rm\<lparr> gameState := (gameState rm)\<lparr>
                  history := history (gameState rm) @ [?item],
                  currentPlayer := (if currentPlayer (gameState rm) = 1 then 2 else 1) \<rparr> \<rparr>"
    have w': "w' = emit (ToRoom rc)
                (TurnChange (if currentPlayer (gameState rm) = 1 then 2 else 1) ?item
                   (history (gameState rm) @ [?item])) (putRoom a ?rm w)"
      using miss[OF False] .
    have r: "roomOfSocket w' sock = Some (rc, a, ?rm)"
      unfolding w' using d(1,2) by (rule roomOfSocket_after_put)
    have e: "emitted w' = emitted w @
               [(ToRoom rc, TurnChange (currentPlayer (gameState ?rm)) ?item
                              (history (gameState ?rm)))]"
      unfolding w' by (simp add: emitted_emit_put)
    have lt: "correctPosition res < 4"
      using False correctPosition_le_4[of g os] res by simp
    show ?thesis
      apply (rule exI[of _ p], rule exI[of _ ?item], rule exI[of _ ?rm])
      using st pl turn win r e False lt by simp
  qed
qed

theorem makeGuess_accepted_witness:
  "(\<exists>rm'. roomOfSocket (snd (makeGuess ''A'' ''1256'' 700 (run startedActs))) ''A''
             = Some (''ROOM01'', 0, rm')
          \<and> currentPlayer (gameState rm') = 2 \<and> winner (gameState rm') = Undefined
          \<and> length (history (gameState rm')) = 1)
   \<and> (\<exists>rm'. roomOfSocket (snd (makeGuess ''A'' ''5678'' 700 (run startedActs))) ''A''
             = Some (''ROOM01'', 0, rm')
          \<and> currentPlayer (gameState rm') = 1 \<and> winner (gameState rm') = Val 1
          \<and> winningGuess (gameState rm') = Val ''5678'')"
proof -
  have m: "fst (makeGuess ''A'' ''1256'' 700 (run startedActs))
             = GuessChecked \<lparr> correctPosition = 0, correctNumber = 2 \<rparr> False"
    by code_simp
  have h: "fst (makeGuess ''A'' ''5678'' 700 (run startedActs))
             = GuessChecked \<lparr> correctPosition = 4, correctNumber = 4 \<rparr> True"
    by code_simp
  have m': "makeGuess ''A'' ''1256'' 700 (run startedActs)
             = (GuessChecked \<lparr> correctPosition = 0, correctNumber = 2 \<rparr> False,
                snd (makeGuess ''A'' ''1256'' 700 (run startedActs)))"
    using m by (simp add: prod_eq_iff)
  have h': "makeGuess ''A'' ''5678'' 700 (run startedActs)
             = (GuessChecked \<lparr> correctPosition = 4, correctNumber = 4 \<rparr> True,
                snd (makeGuess ''A'' ''5678'' 700 (run startedActs)))"
    using h by (simp add: prod_eq_iff)
  have s: "map_of (players startedRoom) ''A'' = Some readyA" "playerNumber readyA = 1"
      "currentPlayer (gameState startedRoom) = 1" "winner (gameState startedRoom) = Undefined"
      "history (gameState startedRoom) = []"
    by (simp_all add: startedRoom_def startedState_def lobbyRoom_def lobbyState_def
        readyA_def seatA_def newPlayer_def)
  have 1: "\<exists>rm'. roomOfSocket (snd (makeGuess ''A'' ''1256'' 700 (run startedActs))) ''A''
             = Some (''ROOM01'', 0, rm')
          \<and> currentPlayer (gameState rm') = 2 \<and> winner (gameState rm') = Undefined
          \<and> length (history (gameState rm')) = 1"
    using makeGuess_accepted[OF socket_started_A m'] s by auto
  have 2: "\<exists>rm'. roomOfSocket (snd (makeGuess ''A'' ''5678'' 700 (run startedActs))) ''A''
             = Some (''ROOM01'', 0, rm')
          \<and> currentPlayer (gameState rm') = 1 \<and> winner (gameState rm') = Val 1
          \<and> winningGuess (gameState rm') = Val ''5678''"
    using makeGuess_accepted[OF socket_started_A h'] s by auto
  from 1 2 show ?thesis by blast
qed

section \<open>resetGame\<close>

lemma unready_frame:
  "map fst (unready ps) = map fst ps
   \<and> map (\<lambda>kp. keptFields (snd kp)) (unready ps) = map (\<lambda>kp. keptFields (snd kp)) ps
   \<and> list_all (\<lambda>kp. \<not> ready (snd kp)) (unready ps)"
  by (induction ps) (simp_all add: unready_def keptFields_def)

text \<open>
  C10: \<open>resetGame\<close> puts in place of \<open>gameState\<close> the lobby state (not started,
  \<open>currentPlayer\<close> 1, no secret, no history, \<open>winner\<close> and \<open>winningGuess\<close> null), makes
  every player not ready, clears every timer of the room's table and empties the table.
  The keys of \<open>players\<close> and, of every player, the socket identifier, player number,
  nickname, \<open>connected\<close>, \<open>tempDisconnected\<close>, \<open>lastSeen\<close> and \<open>reconnectedAt\<close> are as
  before, as are the room's code and date and the two maps of the server.
\<close>

theorem resetGame_frame:
  assumes "roomOfSocket w sock = Some (rc, a, rm)"
  shows "\<exists>rm'. roomOfSocket (resetGame sock w) sock = Some (rc, a, rm')
     \<and> gameState rm' = \<lparr> started = False, currentPlayer = 1, secrets = [], history = [],
                          winner = Null, winningGuess = Null, startedAt = None \<rparr>
     \<and> list_all (\<lambda>kp. \<not> ready (snd kp)) (players rm')
     \<and> map fst (players rm') = map fst (players rm)
     \<and> map (\<lambda>kp. keptFields (snd kp)) (players rm') = map (\<lambda>kp. keptFields (snd kp)) (players rm)
     \<and> code rm' = code rm \<and> createdAt rm' = createdAt rm
     \<and> disconnectTimers rm' = []
     \<and> list_all (\<lambda>h. map_of (timers (resetGame sock w)) h = None) (map snd (disconnectTimers rm))
     \<and> gameRooms (resetGame sock w) = gameRooms w
     \<and> playerSockets (resetGame sock w) = playerSockets w"
proof -
  note d = roomOfSocket_SomeD[OF assms]
  let ?gs = "\<lparr> started = False, currentPlayer = 1, secrets = [], history = [],
                winner = Null, winningGuess = Null, startedAt = None \<rparr>"
  let ?w1 = "clearTimeouts (map snd (disconnectTimers rm)) w"
  let ?rm = "rm\<lparr> players := unready (players rm), gameState := ?gs, disconnectTimers := [] \<rparr>"
  let ?ev = "GameReset (createCleanPlayersObject (unready (players rm))) ?gs"
  have w': "resetGame sock w = emit (ToRoom rc) ?ev (putRoom a ?rm ?w1)"
    using assms by (simp add: resetGame_def Let_def)
  have fr: "playerSockets ?w1 = playerSockets w" "gameRooms ?w1 = gameRooms w"
    using clearTimeouts_frame[of "map snd (disconnectTimers rm)" w] by simp_all
  have r: "roomOfSocket (resetGame sock w) sock = Some (rc, a, ?rm)"
    unfolding w' by (rule roomOfSocket_after_put) (simp_all add: fr d)
  have t: "list_all (\<lambda>h. map_of (timers (resetGame sock w)) h = None)
             (map snd (disconnectTimers rm))"
    unfolding w' by (simp add: emit_def putRoom_def clearTimeouts_timers list_all_iff)
  have g: "gameRooms (resetGame sock w) = gameRooms w"
      "playerSockets (resetGame sock w) = playerSockets w"
    unfolding w' by (simp_all add: emit_def putRoom_def fr)
  show ?thesis
    apply (rule exI[of _ ?rm])
    using r t g unready_frame[of "players rm"] by simp
qed

theorem resetGame_frame_witness:
  "\<exists>rm'. roomOfSocket (resetGame ''A'' (run droppedActs)) ''A'' = Some (''ROOM01'', 0, rm')
     \<and> started (gameState rm') = False \<and> secrets (gameState rm') = []
     \<and> winner (gameState rm') = Null
     \<and> map fst (players rm') = [''A'', ''B'']
     \<and> map (\<lambda>kp. connected (snd kp)) (players rm') = [True, False]
     \<and> disconnectTimers rm' = []
     \<and> map_of (timers (resetGame ''A'' (run droppedActs))) 1 = None"
proof -
  have k: "map fst (players droppedRoom) = [''A'', ''B'']"
      "map (\<lambda>kp. keptFields (snd kp)) (players droppedRoom)
         = [(''A'', 1, ''Player 1'', True, None, 0, None),
            (''B'', 2, ''Player 2'', False, Some True, 1000, None)]"
      "map snd (disconnectTimers droppedRoom) = [1]"
    by (simp_all add: droppedRoom_def startedRoom_def lobbyRoom_def readyA_def readyB_def
        seatA_def seatB_def newPlayer_def keptFields_def)
  from resetGame_frame[OF socket_dropped] obtain rm' where
    r: "roomOfSocket (resetGame ''A'' (run droppedActs)) ''A'' = Some (''ROOM01'', 0, rm')"
    and g: "gameState rm' = \<lparr> started = False, currentPlayer = 1, secrets = [], history = [],
                          winner = Null, winningGuess = Null, startedAt = None \<rparr>"
    and f: "map fst (players rm') = map fst (players droppedRoom)"
    and c: "map (\<lambda>kp. keptFields (snd kp)) (players rm')
              = map (\<lambda>kp. keptFields (snd kp)) (players droppedRoom)"
    and d: "disconnectTimers rm' = []"
    and t: "list_all (\<lambda>h. map_of (timers (resetGame ''A'' (run droppedActs))) h = None)
              (map snd (disconnectTimers droppedRoom))"
    by blast
  have "map (\<lambda>kp. connected (snd kp)) (players rm')
          = map (\<lambda>x. fst (snd (snd (snd x)))) (map (\<lambda>kp. keptFields (snd kp)) (players rm'))"
    by (simp add: keptFields_def)
  then have c': "map (\<lambda>kp. connected (snd kp)) (players rm') = [True, False]"
    by (simp only: c k) simp
  show ?thesis
    apply (rule exI[of _ rm'])
    using r g f d t c' k by simp
qed

section \<open>The sweep\<close>

lemma sweepRoom_store: "store (sweepRoom now w e) = store w"
  using clearTimeouts_frame by (simp add: sweepRoom_def split: option.splits)

lemma sweepRoom_gameRooms:
  "gameRooms (sweepRoom now w e) =
     (if doomed (store w) now e then AList.delete (fst e) (gameRooms w) else gameRooms w)"
  by (simp add: sweepRoom_def doomed_def split: option.splits)

lemma sweep_fold_store: "store (foldl (sweepRoom now) w es) = store w"
  by (induction es arbitrary: w) (simp_all add: sweepRoom_store)

lemma sweep_fold_gameRooms:
  "map_of (gameRooms (foldl (sweepRoom now) w es)) rc =
     (if list_ex (\<lambda>e. fst e = rc \<and> doomed (store w) now e) es then None
      else map_of (gameRooms w) rc)"
proof (induction es arbitrary: w)
  case Nil
  then show ?case by simp
next
  case (Cons e es)
  show ?case
    using Cons.IH[of "sweepRoom now w e"]
    by (auto simp: sweepRoom_store sweepRoom_gameRooms delete_conv)
qed

lemma sweep_lookup:
  assumes "distinct (map fst (gameRooms w))" and "map_of (gameRooms w) rc = Some a"
    and "store w a = Some rm"
  shows "lookupRoom (sweep now w) rc = (if shouldDelete now rm then None else Some (a, rm))"
proof -
  have mem: "(rc, a) \<in> set (gameRooms w)" using assms(2) by (rule map_of_SomeD)
  have uniq: "e = (rc, a)" if "e \<in> set (gameRooms w)" "fst e = rc" for e
  proof -
    have "map_of (gameRooms w) (fst e) = Some (snd e)"
      using assms(1) that(1) by (simp add: map_of_is_SomeI[of _ "fst e" "snd e"])
    with that(2) assms(2) show ?thesis by (cases e) simp
  qed
  have "list_ex (\<lambda>e. fst e = rc \<and> doomed (store w) now e) (gameRooms w) = shouldDelete now rm"
  proof
    assume "list_ex (\<lambda>e. fst e = rc \<and> doomed (store w) now e) (gameRooms w)"
    then obtain e where "e \<in> set (gameRooms w)" "fst e = rc" "doomed (store w) now e"
      by (auto simp: list_ex_iff)
    with uniq[of e] show "shouldDelete now rm" by (simp add: doomed_def assms(3))
  next
    assume "shouldDelete now rm"
    then have "doomed (store w) now (rc, a)" by (simp add: doomed_def assms(3))
    with mem show "list_ex (\<lambda>e. fst e = rc \<and> doomed (store w) now e) (gameRooms w)"
      unfolding list_ex_iff by (intro bexI[of _ "(rc, a)"]) simp_all
  qed
  then show ?thesis
    by (simp add: lookupRoom_def sweep_def sweep_fold_gameRooms sweep_fold_store assms)
qed

text \<open>
  C2, as the source decides it: the sweep drops a room with no player whatever its age,
  keeps a room that has a player, connected or not, and is at most eight hours old, and
  drops every room older than eight hours, whoever is in it.
\<close>

theorem sweep_deletes:
  assumes "distinct (map fst (gameRooms w))" and "map_of (gameRooms w) rc = Some a"
    and "store w a = Some rm"
  shows "(players rm = [] \<longrightarrow> lookupRoom (sweep now w) rc = None)
       \<and> (players rm \<noteq> [] \<and> now - createdAt rm \<le> 8 * 60 * 60 * 1000 \<longrightarrow>
            lookupRoom (sweep now w) rc = Some (a, rm))
       \<and> (now - createdAt rm > 8 * 60 * 60 * 1000 \<longrightarrow> lookupRoom (sweep now w) rc = None)"
  by (simp add: sweep_lookup[OF assms] shouldDelete_def Let_def)

theorem sweep_deletes_witness:
  "lookupRoom (sweep 5 vacantWorld) ''EMPTY0'' = None
   \<and> lookupRoom (sweep 28800000 (run lobbyActs)) ''ROOM01'' = Some (0, lobbyRoom)
   \<and> lookupRoom (sweep 28800001 (run lobbyActs)) ''ROOM01'' = None"
proof -
  have v: "distinct (map fst (gameRooms vacantWorld))"
      "map_of (gameRooms vacantWorld) ''EMPTY0'' = Some 0"
      "store vacantWorld 0 = Some vacantRoom"
    by (simp_all add: vacantWorld_def initialWorld_def)
  have l: "distinct (map fst (gameRooms (run lobbyActs)))"
      "map_of (gameRooms (run lobbyActs)) ''ROOM01'' = Some 0"
      "store (run lobbyActs) 0 = Some lobbyRoom"
    by code_simp+
  have p: "players vacantRoom = []" "players lobbyRoom \<noteq> []" "createdAt lobbyRoom = 0"
    by (simp_all add: vacantRoom_def lobbyRoom_def)
  show ?thesis
    using sweep_deletes[OF v, of 5] sweep_deletes[OF l, of 28800000]
      sweep_deletes[OF l, of 28800001] p
    by simp
qed

text \<open>
  The claim as it is written fails on the lobby of the example: both players are
  connected, the room is eight hours and a millisecond old, and the sweep drops it.
\<close>

theorem sweep_old_room_counterexample:
  "lookupRoom (run lobbyActs) ''ROOM01'' = Some (0, lobbyRoom)
   \<and> list_ex connected (map snd (players lobbyRoom))
   \<and> 28800001 - createdAt lobbyRoom > 8 * 60 * 60 * 1000
   \<and> lookupRoom (sweep 28800001 (run lobbyActs)) ''ROOM01'' = None"
  by code_simp

section \<open>Expiry of a seat\<close>

lemma handlePlayerTimeout_one_left:
  assumes "lookupRoom w rc = Some (a, rm)" and "distinct (map fst (players rm))"
    and "filter (\<lambda>kp. playerNumber (snd kp) \<noteq> pn) (players rm) = [(k, p)]"
  shows "emitted (handlePlayerTimeout rc pn w) = emitted w @
           [(ToRoom rc, GameEnd (playerNumber p) (nickname p) TimeoutNotice
                          (Some ''opponent_timeout'') (history (gameState rm)))]"
    and "\<exists>rm'. lookupRoom (handlePlayerTimeout rc pn w) rc = Some (a, rm') \<and> players rm' = [(k, p)]"
proof -
  note d = lookupRoom_SomeD[OF assms(1)]
  have ps: "deleteKeys (map fst (filter (\<lambda>kp. playerNumber (snd kp) = pn) (players rm))) (players rm)
            = [(k, p)]"
    using deleteKeys_matching[OF assms(2), of "\<lambda>kp. playerNumber (snd kp) = pn"] assms(3) by simp
  show "emitted (handlePlayerTimeout rc pn w) = emitted w @
           [(ToRoom rc, GameEnd (playerNumber p) (nickname p) TimeoutNotice
                          (Some ''opponent_timeout'') (history (gameState rm)))]"
    using assms(1) by (simp add: handlePlayerTimeout_def Let_def ps emit_def putRoom_def)
  show "\<exists>rm'. lookupRoom (handlePlayerTimeout rc pn w) rc = Some (a, rm') \<and> players rm' = [(k, p)]"
    using assms(1) d
    by (simp add: handlePlayerTimeout_def Let_def ps emit_def putRoom_def lookupRoom_def)
qed

lemma handlePlayerTimeout_none_left:
  assumes "lookupRoom w rc = Some (a, rm)" and "distinct (map fst (players rm))"
    and "filter (\<lambda>kp. playerNumber (snd kp) \<noteq> pn) (players rm) = []"
  shows "lookupRoom (handlePlayerTimeout rc pn w) rc = None"
    and "emitted (handlePlayerTimeout rc pn w) = emitted w"
proof -
  have ps: "deleteKeys (map fst (filter (\<lambda>kp. playerNumber (snd kp) = pn) (players rm))) (players rm)
            = []"
    using deleteKeys_matching[OF assms(2), of "\<lambda>kp. playerNumber (snd kp) = pn"] assms(3) by simp
  show "lookupRoom (handlePlayerTimeout rc pn w) rc = None"
    using assms(1)
    by (simp add: handlePlayerTimeout_def Let_def ps putRoom_def lookupRoom_def delete_conv)
  show "emitted (handlePlayerTimeout rc pn w) = emitted w"
    using assms(1) by (simp add: handlePlayerTimeout_def Let_def ps putRoom_def)
qed

text \<open>
  C5: when the expiry timer of a seat runs in a room whose players, but those of that
  seat, are exactly one, a \<^verbatim>\<open>gameEnd\<close> is sent to the room with that player as the
  winner, the reason \<open>opponent_timeout\<close> and the history of the game, and the room keeps
  that player alone; when no player is left, the room leaves \<open>gameRooms\<close> and nothing is
  sent.
\<close>

theorem expiry_forfeit:
  assumes "map_of (timers w) h = Some (PlayerTimeoutCb rc pn)"
    and "lookupRoom w rc = Some (a, rm)" and "distinct (map fst (players rm))"
  shows "(filter (\<lambda>kp. playerNumber (snd kp) \<noteq> pn) (players rm) = [(k, p)] \<longrightarrow>
            emitted (fireTimer h now w) = emitted w @
              [(ToRoom rc, GameEnd (playerNumber p) (nickname p) TimeoutNotice
                             (Some ''opponent_timeout'') (history (gameState rm)))]
          \<and> (\<exists>rm'. lookupRoom (fireTimer h now w) rc = Some (a, rm') \<and> players rm' = [(k, p)]))
       \<and> (filter (\<lambda>kp. playerNumber (snd kp) \<noteq> pn) (players rm) = [] \<longrightarrow>
            lookupRoom (fireTimer h now w) rc = None \<and> emitted (fireTimer h now w) = emitted w)"
proof -
  let ?w = "w\<lparr> timers := AList.delete h (timers w) \<rparr>"
  have f: "fireTimer h now w = handlePlayerTimeout rc pn ?w"
    using assms(1) by (simp add: fireTimer_def runCallback_def)
  have l: "lookupRoom ?w rc = Some (a, rm)" using assms(2) by simp
  have e: "emitted ?w = emitted w" by simp
  show ?thesis
    unfolding f
    using handlePlayerTimeout_one_left[OF l assms(3), of pn k p]
      handlePlayerTimeout_none_left[OF l assms(3), of pn] e
    by simp
qed

theorem expiry_forfeit_witness:
  "emitted (fireTimer 1 31000 (run droppedActs)) = emitted (run droppedActs) @
     [(ToRoom ''ROOM01'', GameEnd 1 ''Player 1'' TimeoutNotice (Some ''opponent_timeout'') [])]
   \<and> (\<exists>rm'. lookupRoom (fireTimer 1 31000 (run droppedActs)) ''ROOM01'' = Some (0, rm')
          \<and> players rm' = [(''A'', readyA)])
   \<and> lookupRoom (fireTimer 0 31000 (run twinActs)) ''ROOM01'' = None"
proof -
  have t1: "map_of (timers (run droppedActs)) 1 = Some (PlayerTimeoutCb ''ROOM01'' 2)"
    by code_simp
  have t0: "map_of (timers (run twinActs)) 0 = Some (PlayerTimeoutCb ''ROOM01'' 2)"
    by code_simp
  have d: "distinct (map fst (players droppedRoom))"
      "filter (\<lambda>kp. playerNumber (snd kp) \<noteq> 2) (players droppedRoom) = [(''A'', readyA)]"
      "playerNumber readyA = 1" "nickname readyA = ''Player 1''"
      "history (gameState droppedRoom) = []"
    by (simp_all add: droppedRoom_def startedRoom_def startedState_def lobbyRoom_def
        lobbyState_def readyA_def readyB_def seatA_def seatB_def newPlayer_def)
  have w: "distinct (map fst (players twinRoom))"
      "filter (\<lambda>kp. playerNumber (snd kp) \<noteq> 2) (players twinRoom) = []"
    by (simp_all add: twinRoom_def lobbyRoom_def reboundD_def seatB_def newPlayer_def)
  show ?thesis
    using expiry_forfeit[OF t1 run_dropped d(1), of "''A''" readyA 31000]
      expiry_forfeit[OF t0 run_twin w(1), of "''A''" readyA 31000] d w
    by simp
qed

section \<open>Reconnection\<close>

lemma handleReconnection_shape:
  assumes "lookupRoom w rc = Some (a, rm)"
    and "handleReconnection sock rc pn now w = (Reconnected gs cps ms, w')"
  shows "\<exists>old p0. find (\<lambda>kp. playerNumber (snd kp) = pn) (players rm) = Some (old, p0)
     \<and> w' = putRoom a
         (rm\<lparr> players :=
               (if old \<noteq> sock
                then AList.delete old
                       (AList.update sock
                          (p0\<lparr> id_sock := sock, connected := True,
                               tempDisconnected := Some False, lastSeen := now,
                               reconnectedAt := Some now \<rparr>) (players rm))
                else AList.update sock
                       (p0\<lparr> id_sock := sock, connected := True,
                            tempDisconnected := Some False, lastSeen := now,
                            reconnectedAt := Some now \<rparr>) (players rm)),
             disconnectTimers := AList.delete pn (disconnectTimers rm) \<rparr>)
         (case map_of (disconnectTimers rm) pn of
            None \<Rightarrow> w\<lparr> playerSockets := AList.update sock rc (playerSockets w) \<rparr>
          | Some h \<Rightarrow> clearTimeout h
                        (w\<lparr> playerSockets := AList.update sock rc (playerSockets w) \<rparr>))
     \<and> gs = gameState rm \<and> ms = map_of (secrets (gameState rm)) sock"
  using assms
  by (auto simp: handleReconnection_def findPlayerBySession_def Let_def split: option.splits)

lemma handlePlayerTimeout_removes_seat:
  assumes "lookupRoom w rc = Some (a, rm)"
  shows "\<exists>rm'. store (handlePlayerTimeout rc pn w) a = Some rm'
           \<and> list_all (\<lambda>kp. playerNumber (snd kp) \<noteq> pn) (players rm')"
proof -
  let ?ks = "map fst (filter (\<lambda>kp. playerNumber (snd kp) = pn) (players rm))"
  have "list_all (\<lambda>kp. \<not> playerNumber (snd kp) = pn) (deleteKeys ?ks (players rm))"
    by (rule deleteKeys_none_left)
  then show ?thesis
    using assms by (simp add: handlePlayerTimeout_def Let_def putRoom_def emit_def)
qed

text \<open>
  What \<^verbatim>\<open>handleReconnection\<close> does for the seat's timer (lines 164-168): when the
  reconnection succeeds, the timer that the room's table holds for the seat is cleared
  and leaves the table, so that timer runs no more, and the seat is in the room,
  connected under the new socket. The callback itself (lines 247-262) tests nothing of
  the seat: run on the state the reconnection left, it leaves no player of that number.
\<close>

lemma reconnect_clears_table_timer:
  assumes "lookupRoom w rc = Some (a, rm)"
    and "handleReconnection sock rc pn now w = (Reconnected gs cps ms, w')"
    and "map_of (disconnectTimers rm) pn = Some h"
  shows "map_of (timers w') h = None
       \<and> fireTimer h t w' = w'
       \<and> (\<exists>rm' p. lookupRoom w' rc = Some (a, rm')
                 \<and> map_of (disconnectTimers rm') pn = None
                 \<and> map_of (players rm') sock = Some p \<and> playerNumber p = pn \<and> connected p)
       \<and> (\<exists>rm''. store (handlePlayerTimeout rc pn w') a = Some rm''
                 \<and> list_all (\<lambda>kp. playerNumber (snd kp) \<noteq> pn) (players rm''))"
proof -
  note d = lookupRoom_SomeD[OF assms(1)]
  from handleReconnection_shape[OF assms(1,2)] obtain old p0 where
    f: "find (\<lambda>kp. playerNumber (snd kp) = pn) (players rm) = Some (old, p0)"
    and w': "w' = putRoom a
         (rm\<lparr> players :=
               (if old \<noteq> sock
                then AList.delete old
                       (AList.update sock
                          (p0\<lparr> id_sock := sock, connected := True,
                               tempDisconnected := Some False, lastSeen := now,
                               reconnectedAt := Some now \<rparr>) (players rm))
                else AList.update sock
                       (p0\<lparr> id_sock := sock, connected := True,
                            tempDisconnected := Some False, lastSeen := now,
                            reconnectedAt := Some now \<rparr>) (players rm)),
             disconnectTimers := AList.delete pn (disconnectTimers rm) \<rparr>)
         (clearTimeout h (w\<lparr> playerSockets := AList.update sock rc (playerSockets w) \<rparr>))"
    using assms(3) by auto
  have seat: "playerNumber p0 = pn"
    using f by (auto simp: find_Some_iff dest: sym[of "(old, p0)"])
  have 1: "map_of (timers w') h = None"
    unfolding w' by (simp add: putRoom_def clearTimeout_def delete_conv)
  then have 2: "fireTimer h t w' = w'" by (simp add: fireTimer_def)
  have 3: "\<exists>rm' p. lookupRoom w' rc = Some (a, rm')
                 \<and> map_of (disconnectTimers rm') pn = None
                 \<and> map_of (players rm') sock = Some p \<and> playerNumber p = pn \<and> connected p"
    unfolding w' using d seat
    by (simp add: putRoom_def clearTimeout_def lookupRoom_def delete_conv update_conv)
  then obtain rm' where l: "lookupRoom w' rc = Some (a, rm')" by blast
  have 4: "\<exists>rm''. store (handlePlayerTimeout rc pn w') a = Some rm''
                 \<and> list_all (\<lambda>kp. playerNumber (snd kp) \<noteq> pn) (players rm'')"
    using l by (rule handlePlayerTimeout_removes_seat)
  from 1 2 3 4 show ?thesis by blast
qed

lemma reconnect_clears_table_timer_example:
  "map_of (disconnectTimers droppedRoom) 2 = Some 1
   \<and> map_of (timers (run droppedActs)) 1 = Some (PlayerTimeoutCb ''ROOM01'' 2)
   \<and> map_of (timers (snd (handleReconnection ''C'' ''ROOM01'' 2 2000 (run droppedActs)))) 1 = None
   \<and> fireTimer 1 31000 (snd (handleReconnection ''C'' ''ROOM01'' 2 2000 (run droppedActs)))
       = snd (handleReconnection ''C'' ''ROOM01'' 2 2000 (run droppedActs))"
proof -
  have f: "fst (handleReconnection ''C'' ''ROOM01'' 2 2000 (run droppedActs))
             = Reconnected startedState (createCleanPlayersObject (players reboundRoom)) None"
    by code_simp
  have e: "handleReconnection ''C'' ''ROOM01'' 2 2000 (run droppedActs)
             = (Reconnected startedState (createCleanPlayersObject (players reboundRoom)) None,
                snd (handleReconnection ''C'' ''ROOM01'' 2 2000 (run droppedActs)))"
    using f by (simp add: prod_eq_iff)
  have h: "map_of (disconnectTimers droppedRoom) 2 = Some 1"
    by (simp add: droppedRoom_def)
  have t1: "map_of (timers (run droppedActs)) 1 = Some (PlayerTimeoutCb ''ROOM01'' 2)"
    by code_simp
  show ?thesis
    using reconnect_clears_table_timer[OF run_dropped e h, of 31000] h t1 by simp
qed

text \<open>
  C3 fails on the source. The claim is that an expiry callback that runs after its seat
  has reconnected removes no player, deletes no secret and leaves the seat intact. In
  the example run \<open>A\<close> leaves the lobby and \<open>C\<close> joins, so that \<open>B\<close> and \<open>C\<close> both
  have the player number 2; both lose their connections, and the timer of \<open>C\<close>
  (handle \<open>1\<close>) takes the place of the timer of \<open>B\<close> (handle \<open>0\<close>) in the table.
  Socket \<open>D\<close> then reconnects seat 2, which clears handle \<open>1\<close> only. Seat 2 is in the
  room, connected under \<open>D\<close>, and handle \<open>0\<close> is still set: when it runs, the callback
  makes no test of the seat, removes \<open>D\<close> with the other player, and the room is
  dropped.
\<close>

theorem expiry_removes_reconnected_seat:
  "lookupRoom (run twinActs) ''ROOM01'' = Some (0, twinRoom)
   \<and> map_of (players twinRoom) ''D'' = Some reboundD
   \<and> playerNumber reboundD = 2 \<and> connected reboundD \<and> reconnectedAt reboundD = Some 2000
   \<and> map_of (timers (run twinActs)) 0 = Some (PlayerTimeoutCb ''ROOM01'' 2)
   \<and> lookupRoom (fireTimer 0 31000 (run twinActs)) ''ROOM01'' = None
   \<and> map_option players (store (fireTimer 0 31000 (run twinActs)) 0) = Some []
   \<and> map_of (playerSockets (fireTimer 0 31000 (run twinActs))) ''D'' = None"
  by code_simp

text \<open>
  C1 fails on the source. In the example run seat 2 sent the secret \<open>5678\<close> under socket
  \<open>B\<close>, lost its connection and reconnected under socket \<open>C\<close>. The secret stays in
  \<open>secrets\<close> under \<open>B\<close>, the players, their ready flags and the history are kept, but
  \<open>mySecret\<close> of the answer, read under \<open>C\<close>, is undefined, and the guess that seat 1
  makes next finds no secret of the opponent.
\<close>

theorem reconnect_loses_secret:
  "lookupRoom (run droppedActs) ''ROOM01'' = Some (0, droppedRoom)
   \<and> map_of (secrets (gameState droppedRoom)) ''B'' = Some ''5678''
   \<and> fst (attemptReconnect ''C'' ''ROOM01'' 2 2000 (run droppedActs))
       = Reconnected startedState (createCleanPlayersObject (players reboundRoom)) None
   \<and> lookupRoom (run reboundActs) ''ROOM01'' = Some (0, reboundRoom)
   \<and> secrets (gameState reboundRoom) = [(''A'', ''1234''), (''B'', ''5678'')]
   \<and> map_of (secrets (gameState reboundRoom)) ''C'' = None
   \<and> fst (makeGuess ''A'' ''5678'' 3000 (run reboundActs)) = Failure OpponentSecretNotFound"
  by code_simp

text \<open>
  C4 fails on the source. In the example run both seats are ready and the start is put
  on a timer; seat 2 leaves before it runs, which puts the room back in the lobby state
  with seat 1 not ready; the timer then runs and sets \<open>started\<close> in a room of one
  player who is not ready and has no secret.
\<close>

theorem start_fires_after_leave:
  "lookupRoom (run leftActs) ''ROOM01'' = Some (0, lobbyRoom\<lparr> players := [(''A'', seatA)] \<rparr>)
   \<and> map_of (timers (run leftActs)) 0 = Some (GameStartCb 0 ''ROOM01'')
   \<and> lookupRoom (run (leftActs @ [TimerFires 0 600])) ''ROOM01'' = Some (0, aloneRoom)
   \<and> started (gameState aloneRoom)
   \<and> players aloneRoom = [(''A'', seatA)] \<and> ready seatA = False
   \<and> secrets (gameState aloneRoom) = []"
  by code_simp

end
